theory Spec2Isabelle
  imports Complex_Main
begin

section \<open>Characters, strings and paths\<close>

text \<open>
  A Python \<^verbatim>\<open>str\<close> is a sequence of code points. Titles are modelled as HOL strings
  whose characters stand for the code points below 256; \<open>code\<close> reads the code point.
  The character classes below are the ones Python 3 uses on such code points:
  \<^verbatim>\<open>str.isalnum\<close>, the regular-expression classes \<^verbatim>\<open>\w\<close> and \<^verbatim>\<open>\d\<close>, the
  whitespace that \<^verbatim>\<open>str.strip\<close> removes, and the six characters of
  \<^verbatim>\<open>textwrap._whitespace\<close>.
\<close>

definition code :: "char \<Rightarrow> nat" where
  "code c = of_char c"

definition is_digit :: "char \<Rightarrow> bool" where
  "is_digit c = (48 \<le> code c \<and> code c \<le> 57)"

definition is_alnum :: "char \<Rightarrow> bool" where
  "is_alnum c =
     (let n = code c in
      (48 \<le> n \<and> n \<le> 57) \<or> (65 \<le> n \<and> n \<le> 90) \<or> (97 \<le> n \<and> n \<le> 122) \<or>
      n = 170 \<or> n = 178 \<or> n = 179 \<or> n = 181 \<or> n = 185 \<or> n = 186 \<or>
      (188 \<le> n \<and> n \<le> 190) \<or> (192 \<le> n \<and> n \<le> 214) \<or> (216 \<le> n \<and> n \<le> 246) \<or>
      248 \<le> n)"

definition is_word_char :: "char \<Rightarrow> bool" where
  \<comment> \<open>the class \<^verbatim>\<open>\w\<close>: alphanumeric or underscore\<close>
  "is_word_char c = (is_alnum c \<or> c = CHR ''_'')"

definition is_letter :: "char \<Rightarrow> bool" where
  \<comment> \<open>the class \<^verbatim>\<open>[^\d\W]\<close>\<close>
  "is_letter c = (is_word_char c \<and> \<not> is_digit c)"

definition is_word_punct :: "char \<Rightarrow> bool" where
  \<comment> \<open>the class \<^verbatim>\<open>[\w!"'&.,?]\<close>\<close>
  "is_word_punct c = (is_word_char c \<or> c \<in> set ''!\"'' \<or> code c = 39 \<or> c \<in> set ''&.,?'')"

definition is_ws :: "char \<Rightarrow> bool" where
  \<comment> \<open>\<^verbatim>\<open>textwrap._whitespace\<close>: tab, newline, vertical tab, form feed, carriage return, space\<close>
  "is_ws c = ((9 \<le> code c \<and> code c \<le> 13) \<or> code c = 32)"

definition py_isspace :: "char \<Rightarrow> bool" where
  \<comment> \<open>the characters \<^verbatim>\<open>str.strip()\<close> removes\<close>
  "py_isspace c =
     ((9 \<le> code c \<and> code c \<le> 13) \<or> (28 \<le> code c \<and> code c \<le> 32) \<or> code c = 133 \<or> code c = 160)"

definition path_join :: "string \<Rightarrow> string \<Rightarrow> string" where
  \<comment> \<open>\<^verbatim>\<open>os.path.join\<close> of two components (POSIX)\<close>
  "path_join a b =
     (if b \<noteq> [] \<and> hd b = CHR ''/'' then b
      else if a = [] \<or> last a = CHR ''/'' then a @ b
      else a @ ''/'' @ b)"

section \<open>Filenames\<close>

definition sanitize_filename_ffmpeg :: "string \<Rightarrow> string" where
  \<comment> \<open>\<^verbatim>\<open>re.sub(r'\W+', '', filename)\<close>: every maximal run of non-word characters is
      deleted, which deletes exactly the non-word characters\<close>
  "sanitize_filename_ffmpeg filename = filter is_word_char filename"

definition is_invalid_char :: "char \<Rightarrow> bool" where
  \<comment> \<open>the class \<^verbatim>\<open>[<>:"/\\|?*]\<close>; 92 is the backslash\<close>
  "is_invalid_char c = (c \<in> set ''<>:\"/|?*'' \<or> code c = 92)"

definition sanitize_filename_moviepy :: "string \<Rightarrow> string" where
  \<comment> \<open>\<^verbatim>\<open>re.sub(r'[<>:"/\\|?*]', '', filename)\<close>\<close>
  "sanitize_filename_moviepy filename = filter (\<lambda>c. \<not> is_invalid_char c) filename"

definition sanitized_title :: "string \<Rightarrow> string" where
  \<comment> \<open>\<^verbatim>\<open>title.replace(' ', '_').replace('/', '_')\<close> in the ffmpeg compositor\<close>
  "sanitized_title title =
     map (\<lambda>c. if c = CHR ''/'' then CHR ''_'' else c)
       (map (\<lambda>c. if c = CHR '' '' then CHR ''_'' else c) title)"

fun show_nat :: "nat \<Rightarrow> string" where
  "show_nat n =
     (if n < 10 then [''0123456789'' ! n]
      else show_nat (n div 10) @ [''0123456789'' ! (n mod 10)])"

definition show_int :: "int \<Rightarrow> string" where
  \<comment> \<open>\<^verbatim>\<open>str\<close> of an integer\<close>
  "show_int i = (if i < 0 then CHR ''-'' # show_nat (nat (- i)) else show_nat (nat i))"

section \<open>Exceptions\<close>

text \<open>
  An exception is modelled by its class and its text, \<^verbatim>\<open>str(e)\<close>, which the program
  writes into log lines as \<^verbatim>\<open>{e}\<close>. A constructor stands for the class and its
  subclasses, as an \<^verbatim>\<open>except\<close> clause does; \<open>OtherError\<close> stands for any class not
  named here (network errors of the download library, \<^verbatim>\<open>FileNotFoundError\<close> of
  \<^verbatim>\<open>subprocess.run\<close>, ...). All of them are subclasses of \<^verbatim>\<open>Exception\<close>.
\<close>

datatype py_error =
  ValueError (str_error: string)
| IndexError (str_error: string)
| TypeError (str_error: string)
| ZeroDivisionError (str_error: string)
| CalledProcessError (str_error: string)
| RequestException (str_error: string)
| OtherError (str_error: string)

section \<open>Word wrapping of the title\<close>

subsection \<open>The library function \<^verbatim>\<open>textwrap.wrap\<close>\<close>

text \<open>
  \<^verbatim>\<open>break_text\<close> calls \<^verbatim>\<open>textwrap.wrap(text, width=line_width)\<close> of the Python
  standard library. The model follows \<^verbatim>\<open>TextWrapper.wrap\<close> with the default options
  (tabs expanded to columns of 8, whitespace replaced by spaces, whitespace dropped at
  line ends, long words broken, breaks allowed after hyphens, no indent, no line limit):
  \<^verbatim>\<open>_munge_whitespace\<close>, \<^verbatim>\<open>_split\<close> with the regular expression
  \<^verbatim>\<open>wordsep_re\<close>, and \<^verbatim>\<open>_wrap_chunks\<close> with \<^verbatim>\<open>_handle_long_word\<close>.
  The library keeps the chunks in a reversed list and pops from its end; the model keeps
  them in reading order and takes from the front.
\<close>

fun expandtabs :: "nat \<Rightarrow> string \<Rightarrow> string" where
  "expandtabs col [] = []"
| "expandtabs col (c # cs) =
     (if code c = 9
      then replicate (8 - col mod 8) CHR '' '' @ expandtabs (col + (8 - col mod 8)) cs
      else c # expandtabs (if code c = 10 \<or> code c = 13 then 0 else col + 1) cs)"

definition munge_whitespace :: "string \<Rightarrow> string" where
  "munge_whitespace text = map (\<lambda>c. if is_ws c then CHR '' '' else c) (expandtabs 0 text)"

text \<open>
  \<^verbatim>\<open>wordsep_re\<close> has three alternatives, tried in this order at each position: a run
  of whitespace; a run of two or more hyphens between a word-or-punctuation character
  and a word character; a shortest run of non-whitespace characters that ends after a
  hyphen between letters, before whitespace or the end, or before such a run of hyphens.
  In \<open>scan_word\<close> and \<open>split_chunks\<close> the first argument is the text before the
  current position, reversed, for the look-behind conditions.
\<close>

definition emdash_ahead :: "string \<Rightarrow> bool" where
  \<comment> \<open>\<^verbatim>\<open>-{2,}\<close> followed by \<^verbatim>\<open>\w\<close>\<close>
  "emdash_ahead rest =
     (let n = length (takeWhile (\<lambda>c. c = CHR ''-'') rest)
      in 2 \<le> n \<and> (case drop n rest of [] \<Rightarrow> False | c # _ \<Rightarrow> is_word_char c))"

definition wp_behind :: "string \<Rightarrow> bool" where
  "wp_behind prev = (case prev of [] \<Rightarrow> False | p # _ \<Rightarrow> is_word_punct p)"

fun hyph_behind :: "string \<Rightarrow> bool" where
  \<comment> \<open>before the hyphen: two letters, or letter, hyphen, letter\<close>
  "hyph_behind (a # b # c # _) =
     ((is_letter b \<and> is_letter a) \<or> (is_letter c \<and> b = CHR ''-'' \<and> is_letter a))"
| "hyph_behind [a, b] = (is_letter b \<and> is_letter a)"
| "hyph_behind _ = False"

fun hyph_ahead :: "string \<Rightarrow> bool" where
  \<comment> \<open>after the hyphen: letter, optional hyphen, letter\<close>
  "hyph_ahead (a # b # c # _) =
     ((is_letter a \<and> b = CHR ''-'' \<and> is_letter c) \<or> (is_letter a \<and> is_letter b))"
| "hyph_ahead [a, b] = (is_letter a \<and> is_letter b)"
| "hyph_ahead _ = False"

fun scan_word :: "string \<Rightarrow> string \<Rightarrow> nat" where
  \<comment> \<open>how many more characters the word chunk takes\<close>
  "scan_word prev [] = 0"
| "scan_word prev (c # cs) =
     (if c = CHR ''-'' \<and> hyph_behind prev \<and> hyph_ahead cs then 1
      else if is_ws c then 0
      else if wp_behind prev \<and> emdash_ahead (c # cs) then 0
      else Suc (scan_word (c # prev) cs))"

definition chunk_rest :: "string \<Rightarrow> char \<Rightarrow> string \<Rightarrow> nat" where
  \<comment> \<open>the chunk that starts with \<open>c\<close> takes this many characters of \<open>cs\<close>\<close>
  "chunk_rest prev c cs =
     (if is_ws c then length (takeWhile is_ws cs)
      else if wp_behind prev \<and> emdash_ahead (c # cs)
           then length (takeWhile (\<lambda>x. x = CHR ''-'') cs)
      else scan_word (c # prev) cs)"

function split_chunks :: "string \<Rightarrow> string \<Rightarrow> string list" where
  "split_chunks prev [] = []"
| "split_chunks prev (c # cs) =
     (let n = chunk_rest prev c cs; chunk = c # take n cs
      in chunk # split_chunks (rev chunk @ prev) (drop n cs))"
  by pat_completeness auto
termination
  by (relation "measure (\<lambda>(prev, rest). length rest)") auto

definition blank :: "string \<Rightarrow> bool" where
  \<comment> \<open>\<^verbatim>\<open>chunk.strip() == ''\<close>\<close>
  "blank s = list_all py_isspace s"

fun take_fitting :: "nat \<Rightarrow> nat \<Rightarrow> string list \<Rightarrow> string list \<times> nat \<times> string list" where
  \<comment> \<open>the inner loop: chunks that fit move to the current line\<close>
  "take_fitting width cur_len [] = ([], cur_len, [])"
| "take_fitting width cur_len (c # cs) =
     (if cur_len + length c \<le> width
      then (case take_fitting width (cur_len + length c) cs of
              (taken, n, rest) \<Rightarrow> (c # taken, n, rest))
      else ([], cur_len, c # cs))"

definition rfind_hyphen :: "string \<Rightarrow> nat \<Rightarrow> int" where
  \<comment> \<open>\<^verbatim>\<open>chunk.rfind('-', 0, space_left)\<close>\<close>
  "rfind_hyphen chunk space_left =
     (let found = filter (\<lambda>i. chunk ! i = CHR ''-'') [0 ..< min space_left (length chunk)]
      in if found = [] then - 1 else int (last found))"

definition handle_long_word ::
  "string \<Rightarrow> string list \<Rightarrow> string list \<Rightarrow> nat \<Rightarrow> nat \<Rightarrow> string list \<times> string list" where
  \<comment> \<open>the chunk at the front is longer than the width; \<open>cur_len \<le> width\<close> here, so
      the subtraction is exact\<close>
  "handle_long_word chunk rest cur_line cur_len width =
     (let space_left = (if width < 1 then 1 else width - cur_len);
          hyphen = rfind_hyphen chunk space_left;
          end_pos = (if length chunk > space_left \<and> hyphen > 0 \<and>
                    list_ex (\<lambda>c. c \<noteq> CHR ''-'') (take (nat hyphen) chunk)
                 then nat hyphen + 1 else space_left)
      in (cur_line @ [take end_pos chunk], drop end_pos chunk # rest))"

definition wrap_step :: "nat \<Rightarrow> bool \<Rightarrow> string list \<Rightarrow> string list \<times> string list" where
  \<comment> \<open>one round of the outer loop: the chunks of the line and the chunks left;
      \<open>started\<close> says that \<^verbatim>\<open>lines\<close> is not empty\<close>
  "wrap_step width started chunks =
     (let chunks1 = (case chunks of [] \<Rightarrow> [] | c # cs \<Rightarrow> if blank c \<and> started then cs else chunks)
      in case take_fitting width 0 chunks1 of
        (cur_line, cur_len, chunks2) \<Rightarrow>
          (case (case chunks2 of
                   [] \<Rightarrow> (cur_line, chunks2)
                 | c # cs \<Rightarrow> if length c > width
                            then handle_long_word c cs cur_line cur_len width
                            else (cur_line, chunks2)) of
             (cur_line2, chunks3) \<Rightarrow>
               (if cur_line2 \<noteq> [] \<and> blank (last cur_line2) then butlast cur_line2 else cur_line2,
                chunks3)))"

text \<open>
  The outer loop of \<^verbatim>\<open>_wrap_chunks\<close> runs while chunks are left. Each round
  removes a chunk or shortens the first one, so the size below decreases and the loop
  ends whenever the width is positive.
\<close>

definition chunks_size :: "string list \<Rightarrow> nat" where
  "chunks_size chunks = sum_list (map (\<lambda>c. Suc (length c)) chunks)"

lemma chunks_size_simps [simp]:
  "chunks_size [] = 0" "chunks_size (c # cs) = Suc (length c) + chunks_size cs"
  "chunks_size (xs @ ys) = chunks_size xs + chunks_size ys"
  by (simp_all add: chunks_size_def)

lemma take_fitting_split:
  "take_fitting w n cs = (taken, n', rest) \<Longrightarrow>
     cs = taken @ rest \<and> n' = n + sum_list (map length taken)"
proof (induction w n cs arbitrary: taken n' rest rule: take_fitting.induct)
  case (1 width cur_len)
  then show ?case by simp
next
  case (2 width cur_len c cs)
  show ?case
  proof (cases "cur_len + length c \<le> width")
    case True
    obtain t m r where tf: "take_fitting width (cur_len + length c) cs = (t, m, r)"
      by (cases "take_fitting width (cur_len + length c) cs") auto
    from "2.IH"[OF True tf] "2.prems" True tf show ?thesis by auto
  next
    case False
    with "2.prems" show ?thesis by simp
  qed
qed

lemma take_fitting_le:
  "take_fitting w n cs = (taken, n', rest) \<Longrightarrow> n \<le> w \<Longrightarrow> n' \<le> w"
  by (induction cs arbitrary: n taken n' rest) (auto split: if_splits prod.splits)

lemma take_fitting_stop:
  "take_fitting w n cs = (taken, n', c # rest) \<Longrightarrow> w < n' + length c"
  by (induction cs arbitrary: n taken n' rest) (auto split: if_splits prod.splits)

lemma rfind_hyphen_less: "rfind_hyphen chunk k < int k"
proof (cases "filter (\<lambda>i. chunk ! i = CHR ''-'') [0 ..< min k (length chunk)] = []")
  case True
  then show ?thesis by (simp add: rfind_hyphen_def)
next
  case False
  then have "last (filter (\<lambda>i. chunk ! i = CHR ''-'') [0 ..< min k (length chunk)])
      \<in> set (filter (\<lambda>i. chunk ! i = CHR ''-'') [0 ..< min k (length chunk)])"
    by (rule last_in_set)
  then have "last (filter (\<lambda>i. chunk ! i = CHR ''-'') [0 ..< min k (length chunk)]) < k"
    by simp
  with False show ?thesis by (simp add: rfind_hyphen_def)
qed

lemma handle_long_word_cut:
  assumes "handle_long_word c cs cur n w = (l, r)" and "0 < w"
  shows "\<exists>e. e \<le> w - n \<and> (n = 0 \<longrightarrow> 0 < e) \<and> l = cur @ [take e c] \<and> r = drop e c # cs"
proof -
  define sl where "sl = w - n"
  define h where "h = rfind_hyphen c sl"
  define e where "e = (if length c > sl \<and> h > 0 \<and> list_ex (\<lambda>x. x \<noteq> CHR ''-'') (take (nat h) c)
                 then nat h + 1 else sl)"
  have hl: "h < int sl" unfolding h_def by (rule rfind_hyphen_less)
  have "e \<le> sl" using hl by (auto simp: e_def)
  moreover have "n = 0 \<longrightarrow> 0 < e" using assms(2) by (auto simp: e_def sl_def)
  moreover have "l = cur @ [take e c]" "r = drop e c # cs"
    using assms by (auto simp: handle_long_word_def Let_def e_def h_def sl_def)
  ultimately show ?thesis unfolding sl_def by blast
qed

lemma wrap_step_decreases:
  assumes "wrap_step w started chunks = (line, rest)" and "chunks \<noteq> []" and "0 < w"
  shows "chunks_size rest < chunks_size chunks"
proof -
  define chunks1 where
    "chunks1 = (case chunks of [] \<Rightarrow> [] | c # cs \<Rightarrow> if blank c \<and> started then cs else chunks)"
  obtain cur_line cur_len chunks2 where tf: "take_fitting w 0 chunks1 = (cur_line, cur_len, chunks2)"
    by (cases "take_fitting w 0 chunks1") auto
  have c1: "chunks_size chunks1 \<le> chunks_size chunks"
    by (auto simp: chunks1_def split: list.splits)
  have c1': "chunks1 \<noteq> chunks \<Longrightarrow> chunks_size chunks1 < chunks_size chunks"
    by (auto simp: chunks1_def split: list.splits if_splits)
  from take_fitting_split[OF tf] have sp: "chunks1 = cur_line @ chunks2" and cl: "cur_len = sum_list (map length cur_line)"
    by auto
  from take_fitting_le[OF tf] have le: "cur_len \<le> w" by simp
  show ?thesis
  proof (cases chunks2)
    case Nil
    then have "rest = []" using assms(1) tf by (simp add: wrap_step_def chunks1_def[symmetric])
    then show ?thesis using assms(2) by (cases chunks) auto
  next
    case (Cons c cs)
    show ?thesis
    proof (cases "length c > w")
      case False
      then have r: "rest = chunks2" using assms(1) tf Cons
        by (auto simp: wrap_step_def chunks1_def[symmetric] split: prod.splits)
      from take_fitting_stop[OF tf[unfolded Cons]] False have "cur_line \<noteq> []"
        using cl by auto
      then have "chunks_size chunks2 < chunks_size chunks1" using sp by (cases cur_line) auto
      with c1 r show ?thesis by simp
    next
      case True
      obtain l r where h: "handle_long_word c cs cur_line cur_len w = (l, r)"
        by (cases "handle_long_word c cs cur_line cur_len w") auto
      from handle_long_word_cut[OF h assms(3)] obtain e where
        e: "e \<le> w - cur_len" "cur_len = 0 \<longrightarrow> 0 < e" "r = drop e c # cs" by blast
      have r: "rest = r" using assms(1) tf Cons True h
        by (auto simp: wrap_step_def chunks1_def[symmetric] split: prod.splits)
      have "chunks_size r + e = chunks_size chunks2" using e True Cons by auto
      moreover have "cur_line = [] \<longrightarrow> 0 < e \<or> chunks1 \<noteq> chunks"
      proof
        assume "cur_line = []"
        then have "cur_len = 0" using cl by simp
        then show "0 < e \<or> chunks1 \<noteq> chunks" using e by simp
      qed
      moreover have "cur_line \<noteq> [] \<longrightarrow> chunks_size chunks2 < chunks_size chunks1"
        using sp by (cases cur_line) auto
      moreover have "chunks_size chunks2 \<le> chunks_size chunks1" using sp by simp
      ultimately show ?thesis using c1 c1' r by (cases "cur_line = []") auto
    qed
  qed
qed

function wrap_chunks :: "nat \<Rightarrow> bool \<Rightarrow> string list \<Rightarrow> string list" where
  "wrap_chunks width started chunks =
     (if chunks = [] \<or> width = 0 then []
      else case wrap_step width started chunks of
        (cur_line, rest) \<Rightarrow>
          if cur_line \<noteq> [] then concat cur_line # wrap_chunks width True rest
          else wrap_chunks width started rest)"
  by pat_completeness auto
termination
  by (relation "measure (\<lambda>(w, s, chunks). chunks_size chunks)")
     (auto dest: wrap_step_decreases[OF sym])

definition textwrap_wrap :: "string \<Rightarrow> int \<Rightarrow> py_error + string list" where
  \<comment> \<open>\<^verbatim>\<open>textwrap.wrap(text, width)\<close>; a width below 1 raises \<^verbatim>\<open>ValueError\<close>\<close>
  "textwrap_wrap text width =
     (if width \<le> 0
      then Inl (ValueError (''invalid width '' @ show_int width @ '' (must be > 0)''))
      else Inr (wrap_chunks (nat width) False (split_chunks [] (munge_whitespace text))))"

subsection \<open>\<^verbatim>\<open>break_text\<close>\<close>

definition slice_upto :: "'a list \<Rightarrow> int \<Rightarrow> 'a list" where
  \<comment> \<open>the slice \<^verbatim>\<open>xs[:n]\<close>; a negative \<open>n\<close> counts from the end\<close>
  "slice_upto xs n = (if n < 0 then take (nat (int (length xs) + n)) xs else take (nat n) xs)"

definition append_ellipsis :: "string list \<Rightarrow> py_error + string list" where
  \<comment> \<open>\<^verbatim>\<open>wrapped_text[-1] += '...'\<close>; on an empty list the index raises\<close>
  "append_ellipsis wrapped_text =
     (if wrapped_text = [] then Inl (IndexError ''list index out of range'')
      else Inr (butlast wrapped_text @ [last wrapped_text @ ''...'']))"

definition break_lines :: "string \<Rightarrow> int \<Rightarrow> int \<Rightarrow> py_error + string list" where
  \<comment> \<open>the list \<^verbatim>\<open>wrapped_text\<close> after the truncation step, the same in both variants\<close>
  "break_lines text max_lines line_width =
     (case textwrap_wrap text line_width of
        Inl e \<Rightarrow> Inl e
      | Inr wrapped_text \<Rightarrow>
          if int (length wrapped_text) > max_lines
          then append_ellipsis (slice_upto wrapped_text max_lines)
          else Inr wrapped_text)"

fun join_lines :: "string list \<Rightarrow> string" where
  \<comment> \<open>\<^verbatim>\<open>'\n'.join(lines)\<close>\<close>
  "join_lines [] = []"
| "join_lines [l] = l"
| "join_lines (l # ls) = l @ CHR 0x0A # join_lines ls"

definition break_text_moviepy :: "string \<Rightarrow> int \<Rightarrow> int \<Rightarrow> py_error + string" where
  "break_text_moviepy text max_lines line_width =
     (case break_lines text max_lines line_width of
        Inl e \<Rightarrow> Inl e
      | Inr wrapped_text \<Rightarrow> Inr (join_lines wrapped_text))"

definition padded_text :: "string list \<Rightarrow> int \<Rightarrow> int \<Rightarrow> string list" where
  \<comment> \<open>\<^verbatim>\<open>[''] * top_padding + wrapped_text + [''] * bottom_padding\<close>\<close>
  "padded_text wrapped_text top_padding bottom_padding =
     replicate (nat top_padding) [] @ wrapped_text @ replicate (nat bottom_padding) []"

definition break_text_ffmpeg :: "string \<Rightarrow> int \<Rightarrow> int \<Rightarrow> int \<Rightarrow> int \<Rightarrow> py_error + string" where
  "break_text_ffmpeg text max_lines line_width top_padding bottom_padding =
     (case break_lines text max_lines line_width of
        Inl e \<Rightarrow> Inl e
      | Inr wrapped_text \<Rightarrow> Inr (join_lines (padded_text wrapped_text top_padding bottom_padding)))"

subsection \<open>Facts about the wrapped lines\<close>

lemma wrap_step_line_le:
  assumes "wrap_step w started chunks = (line, rest)" and "0 < w"
  shows "length (concat line) \<le> w"
proof -
  define chunks1 where
    "chunks1 = (case chunks of [] \<Rightarrow> [] | c # cs \<Rightarrow> if blank c \<and> started then cs else chunks)"
  obtain cur_line cur_len chunks2 where tf: "take_fitting w 0 chunks1 = (cur_line, cur_len, chunks2)"
    by (cases "take_fitting w 0 chunks1") auto
  from take_fitting_split[OF tf] have cl: "cur_len = length (concat cur_line)"
    by (simp add: length_concat)
  from take_fitting_le[OF tf] have le: "cur_len \<le> w" by simp
  obtain l2 c3 where l2: "(case chunks2 of
                   [] \<Rightarrow> (cur_line, chunks2)
                 | c # cs \<Rightarrow> if length c > w
                            then handle_long_word c cs cur_line cur_len w
                            else (cur_line, chunks2)) = (l2, c3)"
    by (cases "(case chunks2 of
                   [] \<Rightarrow> (cur_line, chunks2)
                 | c # cs \<Rightarrow> if length c > w
                            then handle_long_word c cs cur_line cur_len w
                            else (cur_line, chunks2))") auto
  have "length (concat l2) \<le> w"
  proof (cases chunks2)
    case Nil
    with l2 cl le show ?thesis by auto
  next
    case (Cons c cs)
    show ?thesis
    proof (cases "length c > w")
      case False
      with l2 Cons cl le show ?thesis by auto
    next
      case True
      with l2 Cons have h: "handle_long_word c cs cur_line cur_len w = (l2, c3)" by simp
      from handle_long_word_cut[OF h assms(2)] obtain e where
        "e \<le> w - cur_len" "l2 = cur_line @ [take e c]" by blast
      with cl le show ?thesis by auto
    qed
  qed
  moreover have "line = (if l2 \<noteq> [] \<and> blank (last l2) then butlast l2 else l2)"
    using assms(1) tf l2 by (simp add: wrap_step_def chunks1_def[symmetric])
  moreover have "length (concat (butlast l2)) \<le> length (concat l2)"
    by (cases l2 rule: rev_cases) auto
  ultimately show ?thesis by (simp split: if_splits)
qed

lemma wrap_chunks_line_le:
  "l \<in> set (wrap_chunks w started chunks) \<Longrightarrow> length l \<le> w"
proof (induction w started chunks rule: wrap_chunks.induct)
  case (1 width started chunks)
  show ?case
  proof (cases "chunks = [] \<or> width = 0")
    case True
    with "1.prems" show ?thesis by simp
  next
    case False
    obtain cur_line rest where ws: "wrap_step width started chunks = (cur_line, rest)"
      by (cases "wrap_step width started chunks") auto
    from False have w: "0 < width" by simp
    show ?thesis
    proof (cases "cur_line = []")
      case True
      with "1.prems" False ws have "l \<in> set (wrap_chunks width started rest)" by simp
      with "1.IH"(2)[OF False ws[symmetric]] True show ?thesis by simp
    next
      case nonempty: False
      with "1.prems" False ws have "l = concat cur_line \<or> l \<in> set (wrap_chunks width True rest)"
        by simp
      then show ?thesis
      proof
        assume "l = concat cur_line"
        with wrap_step_line_le[OF ws w] show ?thesis by simp
      next
        assume "l \<in> set (wrap_chunks width True rest)"
        with "1.IH"(1)[OF False ws[symmetric] nonempty] show ?thesis by simp
      qed
    qed
  qed
qed

lemma textwrap_wrap_line_le:
  "textwrap_wrap text width = Inr raw \<Longrightarrow> l \<in> set raw \<Longrightarrow> int (length l) \<le> width"
proof -
  assume a: "textwrap_wrap text width = Inr raw" and l: "l \<in> set raw"
  from a have w: "0 < width" and r: "raw = wrap_chunks (nat width) False (split_chunks [] (munge_whitespace text))"
    by (simp_all add: textwrap_wrap_def split: if_splits)
  from l r have "length l \<le> nat width" by (simp add: wrap_chunks_line_le)
  with w show ?thesis by simp
qed

lemma textwrap_wrap_total: "0 < width \<Longrightarrow> \<exists>raw. textwrap_wrap text width = Inr raw"
  by (simp add: textwrap_wrap_def)

lemma expandtabs_chars: "set (expandtabs col s) \<subseteq> set s \<union> {CHR '' ''}"
  by (induction col s rule: expandtabs.induct) auto

lemma munge_whitespace_no_newline: "c \<in> set (munge_whitespace text) \<Longrightarrow> code c \<noteq> 10"
proof -
  assume "c \<in> set (munge_whitespace text)"
  then have "c \<in> (\<lambda>d. if is_ws d then CHR '' '' else d) ` set (expandtabs 0 text)"
    by (simp add: munge_whitespace_def)
  then obtain d where "c = (if is_ws d then CHR '' '' else d)" by blast
  then show ?thesis
    by (cases "is_ws d") (auto simp: is_ws_def code_def)
qed

lemma concat_split_chunks: "concat (split_chunks prev rest) = rest"
  by (induction prev rest rule: split_chunks.induct) (simp_all add: Let_def)

lemma handle_long_word_shape:
  "\<exists>e. handle_long_word c cs cur n w = (cur @ [take e c], drop e c # cs)"
  unfolding handle_long_word_def Let_def by blast

lemma wrap_step_chars:
  assumes "wrap_step w started chunks = (line, rest)"
  shows "set (concat line) \<subseteq> set (concat chunks) \<and> set (concat rest) \<subseteq> set (concat chunks)"
proof -
  define chunks1 where
    "chunks1 = (case chunks of [] \<Rightarrow> [] | c # cs \<Rightarrow> if blank c \<and> started then cs else chunks)"
  obtain cur_line cur_len chunks2 where tf: "take_fitting w 0 chunks1 = (cur_line, cur_len, chunks2)"
    by (cases "take_fitting w 0 chunks1") auto
  have c1: "set (concat chunks1) \<subseteq> set (concat chunks)"
    by (auto simp: chunks1_def split: list.splits)
  from take_fitting_split[OF tf] have sp: "chunks1 = cur_line @ chunks2" by simp
  obtain l2 c3 where l2: "(case chunks2 of
                   [] \<Rightarrow> (cur_line, chunks2)
                 | c # cs \<Rightarrow> if length c > w
                            then handle_long_word c cs cur_line cur_len w
                            else (cur_line, chunks2)) = (l2, c3)"
    by (cases "(case chunks2 of
                   [] \<Rightarrow> (cur_line, chunks2)
                 | c # cs \<Rightarrow> if length c > w
                            then handle_long_word c cs cur_line cur_len w
                            else (cur_line, chunks2))") auto
  have "set (concat l2) \<subseteq> set (concat chunks1) \<and> set (concat c3) \<subseteq> set (concat chunks1)"
  proof (cases chunks2)
    case Nil
    with l2 sp show ?thesis by auto
  next
    case (Cons c cs)
    show ?thesis
    proof (cases "length c > w")
      case False
      with l2 Cons sp show ?thesis by auto
    next
      case True
      with l2 Cons have h: "handle_long_word c cs cur_line cur_len w = (l2, c3)" by simp
      with handle_long_word_shape[of c cs cur_line cur_len w]
      obtain e where e: "l2 = cur_line @ [take e c]" "c3 = drop e c # cs"
        by auto
      have "set (take e c) \<subseteq> set c" "set (drop e c) \<subseteq> set c"
        by (simp_all add: set_take_subset set_drop_subset)
      then show ?thesis using sp Cons e by auto
    qed
  qed
  moreover have "line = (if l2 \<noteq> [] \<and> blank (last l2) then butlast l2 else l2)" and "rest = c3"
    using assms tf l2 by (simp_all add: wrap_step_def chunks1_def[symmetric])
  moreover have "set (concat (butlast l2)) \<subseteq> set (concat l2)"
    by (cases l2 rule: rev_cases) auto
  ultimately have "set (concat line) \<subseteq> set (concat chunks1)" "set (concat rest) \<subseteq> set (concat chunks1)"
    by (simp_all split: if_splits, blast+)
  with c1 show ?thesis by blast
qed

lemma wrap_chunks_chars:
  "l \<in> set (wrap_chunks w started chunks) \<Longrightarrow> set l \<subseteq> set (concat chunks)"
proof (induction w started chunks rule: wrap_chunks.induct)
  case (1 width started chunks)
  show ?case
  proof (cases "chunks = [] \<or> width = 0")
    case True
    with "1.prems" show ?thesis by simp
  next
    case False
    obtain cur_line rest where ws: "wrap_step width started chunks = (cur_line, rest)"
      by (cases "wrap_step width started chunks") auto
    note ch = wrap_step_chars[OF ws]
    show ?thesis
    proof (cases "cur_line = []")
      case True
      with "1.prems" False ws have "l \<in> set (wrap_chunks width started rest)" by simp
      with "1.IH"(2)[OF False ws[symmetric]] True ch show ?thesis by blast
    next
      case nonempty: False
      with "1.prems" False ws have "l = concat cur_line \<or> l \<in> set (wrap_chunks width True rest)"
        by simp
      then show ?thesis
      proof
        assume "l = concat cur_line"
        with ch show ?thesis by simp
      next
        assume "l \<in> set (wrap_chunks width True rest)"
        with "1.IH"(1)[OF False ws[symmetric] nonempty] ch show ?thesis by blast
      qed
    qed
  qed
qed

lemma textwrap_wrap_no_newline:
  assumes "textwrap_wrap text width = Inr raw" and "l \<in> set raw" and "c \<in> set l"
  shows "code c \<noteq> 10"
proof -
  from assms(1) have r: "raw = wrap_chunks (nat width) False (split_chunks [] (munge_whitespace text))"
    by (simp add: textwrap_wrap_def split: if_splits)
  from assms(2) r have "set l \<subseteq> set (munge_whitespace text)"
    using wrap_chunks_chars[of l "nat width" False "split_chunks [] (munge_whitespace text)"]
    by (simp add: concat_split_chunks)
  with assms(3) show ?thesis by (auto dest: munge_whitespace_no_newline)
qed

section \<open>The world outside the program\<close>

text \<open>
  The program talks to the video site, to the file system and to external processes.
  The model threads a \<open>world\<close> through every function: the paths that exist, the
  lines the program has logged so far (level and message, without the time stamp of the
  log format) and the external calls made so far. What the outside answers is a
  parameter \<open>env\<close> of the model; nothing is assumed about it. Lines printed to the
  console are not part of the model.
\<close>

datatype level = DEBUG | INFO | WARNING | ERROR | CRITICAL

datatype call =
  Lookup string \<comment> \<open>metadata of a video, by URL\<close>
| StreamDownload string \<comment> \<open>\<^verbatim>\<open>stream.download\<close>, by target path\<close>
| Ffmpeg "string list" \<comment> \<open>\<^verbatim>\<open>subprocess.run\<close> of ffmpeg, by its arguments\<close>
| Ffprobe string \<comment> \<open>\<^verbatim>\<open>subprocess.run\<close> of ffprobe, by the probed path\<close>
| WriteFile string \<comment> \<open>a file written by the program itself\<close>
| Library string \<comment> \<open>a call into the video editing library\<close>
| FetchVideos \<comment> \<open>\<^verbatim>\<open>fetch_random_video\<close>: the query for the channel's videos\<close>

record world =
  files :: "string list"
  logged :: "(level \<times> string) list"
  calls :: "call list"

record env =
  yt_length :: "string \<Rightarrow> py_error + int"
    \<comment> \<open>\<^verbatim>\<open>YouTube(url).length\<close>: the duration in seconds, or the exception raised\<close>
  yt_title :: "string \<Rightarrow> py_error + string"
  yt_video_id :: "string \<Rightarrow> py_error + string"
  yt_streams :: "string \<Rightarrow> py_error + bool \<times> bool"
    \<comment> \<open>whether the video-only and the audio-only stream query found a stream\<close>
  stream_download :: "string \<Rightarrow> string list \<Rightarrow> py_error option \<times> string list"
    \<comment> \<open>target path and existing files to the exception raised, if any, and the files
        afterwards\<close>
  run_ffmpeg :: "string list \<Rightarrow> string list \<Rightarrow> py_error option \<times> string list"
    \<comment> \<open>\<^verbatim>\<open>subprocess.run(command, check=True)\<close>: \<open>CalledProcessError\<close> on a non-zero
        exit status, another exception when the process cannot be started\<close>
  run_ffprobe :: "string \<Rightarrow> string list \<Rightarrow> py_error + string"
    \<comment> \<open>the standard output of ffprobe on a path\<close>
  search_videos :: "nat \<Rightarrow> py_error + string list option"
    \<comment> \<open>the \<open>n\<close>-th query of \<^verbatim>\<open>fetch_random_video\<close>: the exception raised by the
        request or while the response is read, or \<^verbatim>\<open>None\<close> for a response without
        \<^verbatim>\<open>items\<close>, or the video ids found, in the order \<^verbatim>\<open>shuffle\<close> leaves them\<close>
  make_dirs :: "string \<Rightarrow> py_error option"
    \<comment> \<open>\<^verbatim>\<open>os.makedirs(path, exist_ok=True)\<close>\<close>
  write_file :: "string \<Rightarrow> string \<Rightarrow> string list \<Rightarrow> py_error option \<times> string list"
    \<comment> \<open>path, text and existing files\<close>
  load_clip :: "string \<Rightarrow> py_error + int \<times> int"
    \<comment> \<open>\<^verbatim>\<open>VideoFileClip(path)\<close>: the size of the clip as width and height\<close>
  str_size :: "int \<times> int \<Rightarrow> string"
    \<comment> \<open>\<^verbatim>\<open>str(clip.size)\<close>: how the library's size object prints, \<^verbatim>\<open>(w, h)\<close> for
        a tuple and \<^verbatim>\<open>[w, h]\<close> for a list\<close>
  library_op :: "string \<Rightarrow> py_error option"
    \<comment> \<open>another operation of the editing library, by name: the exception it raises\<close>
  write_videofile :: "string \<Rightarrow> string list \<Rightarrow> py_error option \<times> string list"
  logo_query :: "py_error + string option"
    \<comment> \<open>the request of \<^verbatim>\<open>fetch_channel_logo\<close>: the exception raised, or the logo URL
        of the first item, \<^verbatim>\<open>None\<close> for a response without items\<close>
  logo_download :: "string \<Rightarrow> string \<Rightarrow> string list \<Rightarrow> py_error option \<times> string list"
    \<comment> \<open>the request and the file write of \<^verbatim>\<open>download_logo\<close>, by URL, path and
        existing files\<close>

definition exists_path :: "world \<Rightarrow> string \<Rightarrow> bool" where
  \<comment> \<open>\<^verbatim>\<open>os.path.exists\<close>\<close>
  "exists_path w p = (p \<in> set (files w))"

definition log_line :: "level \<Rightarrow> string \<Rightarrow> world \<Rightarrow> world" where
  "log_line l msg w = w\<lparr>logged := logged w @ [(l, msg)]\<rparr>"

definition called :: "call \<Rightarrow> world \<Rightarrow> world" where
  "called c w = w\<lparr>calls := calls w @ [c]\<rparr>"

section \<open>The Fetcher\<close>

definition watch_url :: "string \<Rightarrow> string" where
  "watch_url video_id = ''https://www.youtube.com/watch?v='' @ video_id"

definition video_path_ffmpeg :: "string \<Rightarrow> string \<Rightarrow> string" where
  "video_path_ffmpeg dir title = path_join dir (sanitize_filename_ffmpeg title @ ''_video.mp4'')"

definition audio_path_ffmpeg :: "string \<Rightarrow> string \<Rightarrow> string" where
  "audio_path_ffmpeg dir title = path_join dir (sanitize_filename_ffmpeg title @ ''_audio.mp4'')"

definition merged_path_ffmpeg :: "string \<Rightarrow> string \<Rightarrow> string" where
  "merged_path_ffmpeg dir title = path_join dir (sanitize_filename_ffmpeg title @ ''.mp4'')"

definition video_path_moviepy :: "string \<Rightarrow> string \<Rightarrow> string" where
  "video_path_moviepy dir title = path_join dir (sanitize_filename_moviepy title @ ''_video.mp4'')"

definition audio_path_moviepy :: "string \<Rightarrow> string \<Rightarrow> string" where
  "audio_path_moviepy dir title = path_join dir (sanitize_filename_moviepy title @ ''_audio.mp4'')"

definition merged_path_moviepy :: "string \<Rightarrow> string \<Rightarrow> string" where
  "merged_path_moviepy dir title = path_join dir (sanitize_filename_moviepy title @ ''.mp4'')"

text \<open>
  \<^verbatim>\<open>download_video\<close> of the ffmpeg variant. \<open>dir\<close> is \<^verbatim>\<open>YT_DOWNLOADS_DIR\<close>. The body
  runs inside \<^verbatim>\<open>try\<close>; \<^verbatim>\<open>except Exception\<close> logs an error and returns
  \<^verbatim>\<open>None\<close>. The result is \<^verbatim>\<open>None\<close> or the triple of video path, audio path and
  the flag that says the files were already there.
\<close>

definition download_failed ::
  "string \<Rightarrow> py_error \<Rightarrow> world \<Rightarrow> (string \<times> string \<times> bool) option \<times> world" where
  \<comment> \<open>the \<^verbatim>\<open>except\<close> branch\<close>
  "download_failed video_id err w =
     (None, log_line ERROR (''Error downloading video '' @ video_id @ '': '' @ str_error err) w)"

definition download_streams_ffmpeg ::
  "env \<Rightarrow> string \<Rightarrow> string \<Rightarrow> string \<Rightarrow> world \<Rightarrow> (string \<times> string \<times> bool) option \<times> world" where
  \<comment> \<open>from the stream queries on\<close>
  "download_streams_ffmpeg e dir video_id title w =
     (case yt_streams e (watch_url video_id) of
        Inl err \<Rightarrow> download_failed video_id err w
      | Inr (video_stream, audio_stream) \<Rightarrow>
          if \<not> video_stream \<or> \<not> audio_stream
          then (None, log_line ERROR
                  (''Could not find suitable video or audio streams for video '' @ video_id @ ''.'')
                  w)
          else
            let video_path = video_path_ffmpeg dir title;
                audio_path = audio_path_ffmpeg dir title
            in if exists_path w video_path then (Some (video_path, audio_path, True), w)
               else
                 (case stream_download e video_path (files w) of
                    (Some err, fs1) \<Rightarrow>
                      download_failed video_id err
                        (called (StreamDownload video_path) (w\<lparr>files := fs1\<rparr>))
                  | (None, fs1) \<Rightarrow>
                      let w1 = called (StreamDownload video_path) (w\<lparr>files := fs1\<rparr>)
                      in (case stream_download e audio_path fs1 of
                            (Some err, fs2) \<Rightarrow>
                              download_failed video_id err
                                (called (StreamDownload audio_path) (w1\<lparr>files := fs2\<rparr>))
                          | (None, fs2) \<Rightarrow>
                              (Some (video_path, audio_path, False),
                               log_line INFO
                                 (''Downloaded video and audio for video '' @ video_id @ ''.'')
                                 (called (StreamDownload audio_path) (w1\<lparr>files := fs2\<rparr>))))))"

definition download_video_ffmpeg ::
  "env \<Rightarrow> string \<Rightarrow> string \<Rightarrow> string \<Rightarrow> world \<Rightarrow> (string \<times> string \<times> bool) option \<times> world" where
  "download_video_ffmpeg e dir video_id title w =
     (let w1 = called (Lookup (watch_url video_id))
                 (log_line DEBUG (''Attempting to download video from URL: '' @ watch_url video_id) w)
      in case yt_length e (watch_url video_id) of
           Inl err \<Rightarrow> download_failed video_id err w1
         | Inr duration \<Rightarrow>
             if duration < 120
             then (None, log_line INFO
                     (''Video '' @ [CHR 0x27] @ title @ [CHR 0x27] @
                      '' is shorter than 2 minutes. Skipping download.'') w1)
             else download_streams_ffmpeg e dir video_id title w1)"

definition merge_command :: "string \<Rightarrow> string \<Rightarrow> string \<Rightarrow> string list" where
  "merge_command video_path audio_path output_path =
     [''ffmpeg'', ''-y'', ''-i'', video_path, ''-i'', audio_path, ''-c:v'', ''copy'',
      ''-c:a'', ''aac'', ''-strict'', ''experimental'', output_path]"

definition merge_video_audio_ffmpeg ::
  "env \<Rightarrow> string \<Rightarrow> string \<Rightarrow> string \<Rightarrow> world \<Rightarrow> (py_error + unit) \<times> world" where
  \<comment> \<open>only \<^verbatim>\<open>CalledProcessError\<close> is caught; the function returns nothing\<close>
  "merge_video_audio_ffmpeg e video_path audio_path output_path w =
     (let cmd = merge_command video_path audio_path output_path
      in case run_ffmpeg e cmd (files w) of
           (None, fs) \<Rightarrow>
             (Inr (), log_line INFO (''Merged video and audio into '' @ output_path @ ''.'')
                        (called (Ffmpeg cmd) (w\<lparr>files := fs\<rparr>)))
         | (Some (CalledProcessError text), fs) \<Rightarrow>
             (Inr (), log_line ERROR (''Error merging video and audio: '' @ text)
                        (called (Ffmpeg cmd) (w\<lparr>files := fs\<rparr>)))
         | (Some err, fs) \<Rightarrow> (Inl err, called (Ffmpeg cmd) (w\<lparr>files := fs\<rparr>)))"

definition download_and_merge_ffmpeg ::
  "env \<Rightarrow> string \<Rightarrow> string \<Rightarrow> string \<Rightarrow> world \<Rightarrow> (py_error + string option) \<times> world" where
  "download_and_merge_ffmpeg e dir video_id title w =
     (case download_video_ffmpeg e dir video_id title w of
        (None, w1) \<Rightarrow> (Inr None, w1)
      | (Some (video_path, audio_path, local), w1) \<Rightarrow>
          let output_path = merged_path_ffmpeg dir title
          in if \<not> local
             then (case merge_video_audio_ffmpeg e video_path audio_path output_path w1 of
                     (Inl err, w2) \<Rightarrow> (Inl err, w2)
                   | (Inr u, w2) \<Rightarrow> (Inr (Some output_path), w2))
             else (Inr (Some output_path), w1))"

section \<open>The Compositor, ffmpeg variant\<close>

datatype py_value = PyNone | PyTrue | PyStr string
  \<comment> \<open>what a function of the program returns: \<^verbatim>\<open>None\<close>, \<^verbatim>\<open>True\<close> or a string\<close>

subsection \<open>Reading the dimensions\<close>

definition int_space :: "char \<Rightarrow> bool" where
  \<comment> \<open>the whitespace \<^verbatim>\<open>int\<close> accepts around a number\<close>
  "int_space c = ((9 \<le> code c \<and> code c \<le> 13) \<or> code c = 32 \<or> code c = 133 \<or> code c = 160)"

definition strip_by :: "(char \<Rightarrow> bool) \<Rightarrow> string \<Rightarrow> string" where
  "strip_by sp s = rev (dropWhile sp (rev (dropWhile sp s)))"

fun split_newline :: "string \<Rightarrow> string list" where
  \<comment> \<open>\<^verbatim>\<open>s.split('\n')\<close>\<close>
  "split_newline [] = [[]]"
| "split_newline (c # cs) =
     (if code c = 10 then [] # split_newline cs
      else (case split_newline cs of [] \<Rightarrow> [[c]] | l # ls \<Rightarrow> (c # l) # ls))"

fun parse_digits :: "nat \<Rightarrow> string \<Rightarrow> nat option" where
  \<comment> \<open>digits, with single underscores allowed between them\<close>
  "parse_digits acc [] = Some acc"
| "parse_digits acc [c] = (if is_digit c then Some (acc * 10 + (code c - 48)) else None)"
| "parse_digits acc (c # d # ds) =
     (if is_digit c then parse_digits (acc * 10 + (code c - 48)) (d # ds)
      else if c = CHR ''_'' \<and> is_digit d then parse_digits acc (d # ds)
      else None)"

definition hex2 :: "nat \<Rightarrow> string" where
  \<comment> \<open>two lower-case hexadecimal digits\<close>
  "hex2 n = [''0123456789abcdef'' ! (n div 16), ''0123456789abcdef'' ! (n mod 16)]"

definition py_repr :: "string \<Rightarrow> string" where
  \<comment> \<open>\<^verbatim>\<open>repr(s)\<close> of a string: double quotes when the string has a single and no
      double quote; the quote and the backslash escaped; \<^verbatim>\<open>\t\<close>, \<^verbatim>\<open>\n\<close>,
      \<^verbatim>\<open>\r\<close>; \<^verbatim>\<open>\xhh\<close> for the other code points that are not printable\<close>
  "py_repr s =
     (let q = (if CHR 0x27 \<in> set s \<and> CHR 0x22 \<notin> set s then CHR 0x22 else CHR 0x27)
      in [q] @
         concat (map (\<lambda>c.
           if c = q \<or> c = CHR 0x5C then [CHR 0x5C, c]
           else if code c = 9 then [CHR 0x5C, CHR ''t'']
           else if code c = 10 then [CHR 0x5C, CHR ''n'']
           else if code c = 13 then [CHR 0x5C, CHR ''r'']
           else if code c < 32 \<or> code c = 127 \<or> (128 \<le> code c \<and> code c \<le> 160) \<or> code c = 173
           then [CHR 0x5C, CHR ''x''] @ hex2 (code c)
           else [c]) s) @
         [q])"

definition py_int :: "string \<Rightarrow> py_error + int" where
  \<comment> \<open>\<^verbatim>\<open>int(s)\<close> for a string. The digits and underscores at the front are read
      first; more than 4300 digits are refused before anything that follows them is
      looked at. The text of the error shows at most 200 characters of \<^verbatim>\<open>repr(s)\<close>.\<close>
  "py_int s =
     (let t = strip_by int_space s;
          negative = (t \<noteq> [] \<and> hd t = CHR ''-'');
          body = (if t \<noteq> [] \<and> (hd t = CHR ''-'' \<or> hd t = CHR ''+'') then tl t else t);
          run = takeWhile (\<lambda>c. is_digit c \<or> c = CHR ''_'') body;
          invalid = Inl (ValueError (''invalid literal for int() with base 10: '' @
                                     take 200 (py_repr s)))
      in if run = [] \<or> \<not> is_digit (hd run) then invalid
         else (case parse_digits 0 run of
                 None \<Rightarrow> invalid
               | Some n \<Rightarrow>
                   if length (filter is_digit run) > 4300
                   then Inl (ValueError
                          (''Exceeds the limit (4300 digits) for integer string conversion: '' @
                           ''value has '' @ show_nat (length (filter is_digit run)) @
                           '' digits; use sys.set_int_max_str_digits() to increase the limit''))
                   else if run \<noteq> body then invalid
                   else Inr (if negative then - int n else int n)))"

definition parse_dimensions :: "string \<Rightarrow> py_error + int \<times> int" where
  \<comment> \<open>the lines of the ffprobe output as width and height\<close>
  "parse_dimensions out =
     (case split_newline (strip_by py_isspace out) of
        [a, b] \<Rightarrow>
          (case py_int a of
             Inl err \<Rightarrow> Inl err
           | Inr width \<Rightarrow> (case py_int b of Inl err \<Rightarrow> Inl err | Inr height \<Rightarrow> Inr (width, height)))
      | _ \<Rightarrow> Inl (ValueError ''Unexpected output from ffprobe''))"

definition get_video_dimensions :: "env \<Rightarrow> string \<Rightarrow> world \<Rightarrow> (py_error + int \<times> int) \<times> world" where
  \<comment> \<open>the two handlers log and raise again; any other exception passes unlogged\<close>
  "get_video_dimensions e video_path w =
     (let w1 = called (Ffprobe video_path) w
      in case (case run_ffprobe e video_path (files w) of
                 Inl err \<Rightarrow> Inl err
               | Inr out \<Rightarrow> parse_dimensions out) of
           Inl (CalledProcessError text) \<Rightarrow>
             (Inl (CalledProcessError text),
              log_line ERROR (''ffprobe failed with error: '' @ text) w1)
         | Inl (ValueError text) \<Rightarrow>
             (Inl (ValueError text),
              log_line ERROR (''Error parsing video dimensions: '' @ text) w1)
         | Inl err \<Rightarrow> (Inl err, w1)
         | Inr dims \<Rightarrow> (Inr dims, w1))"

subsection \<open>Paths and commands\<close>

definition blurry_bg_path :: "string \<Rightarrow> string" where
  "blurry_bg_path title =
     path_join ''output_videos'' (sanitized_title title @ ''_blurry_bg_9_16.mp4'')"

definition trimmed_main_path :: "string \<Rightarrow> string" where
  "trimmed_main_path title =
     path_join ''output_videos'' (sanitized_title title @ ''_trimmed_main.mp4'')"

definition final_output_path :: "string \<Rightarrow> string" where
  "final_output_path title = path_join ''output_videos'' (sanitized_title title @ ''_final.mp4'')"

definition concat_output_path :: "string \<Rightarrow> string" where
  "concat_output_path title =
     path_join ''ShortifiedYtVideos'' (sanitized_title title @ ''_with_outro.mp4'')"

definition concat_file :: string where
  "concat_file = ''concat_list.txt''"

definition cmd_trim_resize_blur :: "string \<Rightarrow> int \<Rightarrow> string \<Rightarrow> string list" where
  "cmd_trim_resize_blur input_path duration out =
     [''ffmpeg'', ''-y'', ''-i'', input_path, ''-vf'',
      ''scale=-1:1280,crop='min(720,iw)':'min(1280,ih)',boxblur=10:10,pad=720:1280:(ow-iw)/2:(oh-ih)/2'',
      ''-c:v'', ''libx264'', ''-b:v'', ''1000k'', ''-preset'', ''medium'', ''-an'', ''-t'',
      show_int duration, out]"

definition cmd_cut :: "string \<Rightarrow> int \<Rightarrow> int \<Rightarrow> int \<Rightarrow> string \<Rightarrow> string list" where
  "cmd_cut input_path blurry_width blurry_height duration out =
     (let ratio = show_int blurry_width @ ''/'' @ show_int blurry_height
      in [''ffmpeg'', ''-y'', ''-i'', input_path, ''-vf'',
          ''scale='if(gt(a,'' @ ratio @ ''),floor('' @ show_int blurry_width @
            ''/2)*2,-2)':'if(gt(a,'' @ ratio @ ''),-2,floor('' @ show_int blurry_height @
            ''/2)*2)'' @ [CHR 0x27],
          ''-c:v'', ''libx264'', ''-b:v'', ''1000k'', ''-preset'', ''ultrafast'', ''-t'',
          show_int duration, out])"

definition cmd_combine :: "string \<Rightarrow> string \<Rightarrow> string \<Rightarrow> string \<Rightarrow> string list" where
  "cmd_combine bg main formatted_title out =
     [''ffmpeg'', ''-y'', ''-i'', bg, ''-i'', main, ''-filter_complex'',
      ''[0:v][1:v]overlay=(W-w)/2:(H-h)/2,drawtext=text='' @ [CHR 0x27] @ formatted_title @
        [CHR 0x27] @ '':fontfile='' @ path_join ''Fonts'' ''Luciole-Regular.ttf'' @
        '':fontcolor=white:fontsize=50:box=1:boxcolor=black@0.6:boxborderw=10:x=(w-text_w)/2:y=10'',
      ''-c:v'', ''libx264'', ''-b:v'', ''1000k'', ''-preset'', ''medium'', out]"

definition cmd_concat :: "string \<Rightarrow> string list" where
  "cmd_concat out =
     [''ffmpeg'', ''-y'', ''-f'', ''concat'', ''-safe'', ''0'', ''-i'', concat_file, ''-c'', ''copy'', out]"

definition concat_list_text :: "string \<Rightarrow> string \<Rightarrow> string" where
  "concat_list_text final outro_path =
     ''file '' @ [CHR 0x27] @ final @ [CHR 0x27, CHR 0x0A] @
     ''file '' @ [CHR 0x27] @ outro_path @ [CHR 0x27, CHR 0x0A]"

subsection \<open>The pipeline\<close>

text \<open>
  A stage runs ffmpeg unless its output path exists. \<^verbatim>\<open>CalledProcessError\<close> is
  caught by the stage; any other exception goes to the handler of the whole function.
\<close>

datatype stage_result = Done | Failed string | Raised py_error
  \<comment> \<open>\<open>Failed\<close> has the text of the \<^verbatim>\<open>CalledProcessError\<close>\<close>

definition run_stage :: "env \<Rightarrow> string list \<Rightarrow> string \<Rightarrow> world \<Rightarrow> stage_result \<times> world" where
  "run_stage e cmd out w =
     (if exists_path w out then (Done, w)
      else (case run_ffmpeg e cmd (files w) of
              (None, fs) \<Rightarrow> (Done, called (Ffmpeg cmd) (w\<lparr>files := fs\<rparr>))
            | (Some (CalledProcessError text), fs) \<Rightarrow>
                (Failed text, called (Ffmpeg cmd) (w\<lparr>files := fs\<rparr>))
            | (Some err, fs) \<Rightarrow> (Raised err, called (Ffmpeg cmd) (w\<lparr>files := fs\<rparr>))))"

definition processing_failed :: "string \<Rightarrow> py_error \<Rightarrow> world \<Rightarrow> py_value \<times> world" where
  \<comment> \<open>the handler of the whole function\<close>
  "processing_failed title err w =
     (PyNone, log_line ERROR (''Error processing video '' @ title @ '': '' @ str_error err) w)"

definition concat_stage :: "env \<Rightarrow> string \<Rightarrow> string \<Rightarrow> world \<Rightarrow> py_value \<times> world" where
  \<comment> \<open>step 4: here a failed ffmpeg run is printed and the function goes on to
      \<^verbatim>\<open>return True\<close>\<close>
  "concat_stage e title outro_path w =
     (case write_file e concat_file (concat_list_text (final_output_path title) outro_path) (files w) of
        (Some err, fs) \<Rightarrow>
          processing_failed title err (called (WriteFile concat_file) (w\<lparr>files := fs\<rparr>))
      | (None, fs) \<Rightarrow>
          (case run_stage e (cmd_concat (concat_output_path title)) (concat_output_path title)
                  (called (WriteFile concat_file) (w\<lparr>files := fs\<rparr>)) of
             (Raised err, w1) \<Rightarrow> processing_failed title err w1
           | (r, w1) \<Rightarrow> (PyTrue, w1)))"

definition combine_stage :: "env \<Rightarrow> string \<Rightarrow> string \<Rightarrow> world \<Rightarrow> py_value \<times> world" where
  \<comment> \<open>the second probe, the title text and step 3\<close>
  "combine_stage e title outro_path w =
     (case get_video_dimensions e (trimmed_main_path title) w of
        (Inl err, w1) \<Rightarrow> processing_failed title err w1
      | (Inr (main_width, main_height), w1) \<Rightarrow>
          (let w2 = log_line DEBUG
                      (''Trimmed main video dimensions: '' @ show_int main_width @ ''x'' @
                       show_int main_height) w1
           in case break_text_ffmpeg title 3 20 3 3 of
                Inl err \<Rightarrow> processing_failed title err w2
              | Inr formatted_title \<Rightarrow>
                  (case run_stage e
                          (cmd_combine (blurry_bg_path title) (trimmed_main_path title)
                             formatted_title (final_output_path title))
                          (final_output_path title) w2 of
                     (Raised err, w3) \<Rightarrow> processing_failed title err w3
                   | (Failed text, w3) \<Rightarrow> (PyNone, w3)
                   | (Done, w3) \<Rightarrow> concat_stage e title outro_path w3)))"

definition main_stage :: "env \<Rightarrow> string \<Rightarrow> string \<Rightarrow> string \<Rightarrow> int \<Rightarrow> world \<Rightarrow> py_value \<times> world" where
  \<comment> \<open>the first probe and step 2\<close>
  "main_stage e input_path title outro_path duration w =
     (case get_video_dimensions e (blurry_bg_path title) w of
        (Inl err, w1) \<Rightarrow> processing_failed title err w1
      | (Inr (blurry_width, blurry_height), w1) \<Rightarrow>
          (let w2 = log_line DEBUG
                      (''Trimming and resizing main video at: '' @ trimmed_main_path title)
                      (log_line DEBUG
                         (''Blurry background dimensions: '' @ show_int blurry_width @ ''x'' @
                          show_int blurry_height) w1);
               out = trimmed_main_path title
           in case run_stage e (cmd_cut input_path blurry_width blurry_height duration out) out w2 of
                (Raised err, w3) \<Rightarrow> processing_failed title err w3
              | (Failed text, w3) \<Rightarrow>
                  (PyNone, log_line ERROR (''Failed to trim main video. Error: '' @ text) w3)
              | (Done, w3) \<Rightarrow>
                  combine_stage e title outro_path
                    (if exists_path w2 out then w3
                     else log_line INFO (''Trimmed main video saved to '' @ out) w3)))"

definition trim_and_resize_video_ffmpeg ::
  "env \<Rightarrow> string \<Rightarrow> string \<Rightarrow> string \<Rightarrow> int \<Rightarrow> world \<Rightarrow> py_value \<times> world" where
  "trim_and_resize_video_ffmpeg e input_path title outro_path duration w =
     (let w0 = log_line INFO (''Starting video processing for: '' @ title) w
      in case make_dirs e ''output_videos'' of
           Some err \<Rightarrow> processing_failed title err w0
         | None \<Rightarrow>
             (let out = blurry_bg_path title;
                  w1 = log_line DEBUG (''Creating blurry background video at: '' @ out) w0
              in case run_stage e (cmd_trim_resize_blur input_path duration out) out w1 of
                   (Raised err, w2) \<Rightarrow> processing_failed title err w2
                 | (Failed text, w2) \<Rightarrow>
                     (PyNone,
                      log_line ERROR (''Failed to create blurry background video. Error: '' @ text)
                        w2)
                 | (Done, w2) \<Rightarrow>
                     main_stage e input_path title outro_path duration
                       (if exists_path w1 out then w2
                        else log_line INFO (''Blurry background video saved to '' @ out) w2)))"

section \<open>The Compositor, moviepy variant\<close>

subsection \<open>Floating-point arithmetic\<close>











subsection \<open>The pipeline\<close>










section \<open>The Fetcher, moviepy variant\<close>

definition download_failed_moviepy ::
  "string \<Rightarrow> py_error \<Rightarrow> world \<Rightarrow> (string \<times> string) option \<times> world" where
  \<comment> \<open>the \<^verbatim>\<open>except\<close> branch\<close>
  "download_failed_moviepy video_id err w =
     (None, log_line ERROR (''Error downloading video '' @ video_id @ '': '' @ str_error err) w)"

definition download_video_moviepy ::
  "env \<Rightarrow> string \<Rightarrow> string \<Rightarrow> string \<Rightarrow> world \<Rightarrow> (string \<times> string) option \<times> world" where
  \<comment> \<open>no duration check and no test for existing files\<close>
  "download_video_moviepy e dir video_id title w =
     (let w1 = called (Lookup (watch_url video_id))
                 (log_line DEBUG (''Attempting to download video from URL: '' @ watch_url video_id) w)
      in case yt_streams e (watch_url video_id) of
           Inl err \<Rightarrow> download_failed_moviepy video_id err w1
         | Inr (video_stream, audio_stream) \<Rightarrow>
             if \<not> video_stream \<or> \<not> audio_stream
             then (None, log_line ERROR
                     (''Could not find suitable video or audio streams for video '' @ video_id @
                      ''.'') w1)
             else
               let video_path = video_path_moviepy dir title;
                   audio_path = audio_path_moviepy dir title
               in (case stream_download e video_path (files w1) of
                     (Some err, fs1) \<Rightarrow>
                       download_failed_moviepy video_id err
                         (called (StreamDownload video_path) (w1\<lparr>files := fs1\<rparr>))
                   | (None, fs1) \<Rightarrow>
                       let w2 = called (StreamDownload video_path) (w1\<lparr>files := fs1\<rparr>)
                       in (case stream_download e audio_path fs1 of
                             (Some err, fs2) \<Rightarrow>
                               download_failed_moviepy video_id err
                                 (called (StreamDownload audio_path) (w2\<lparr>files := fs2\<rparr>))
                           | (None, fs2) \<Rightarrow>
                               (Some (video_path, audio_path),
                                log_line INFO
                                  (''Downloaded video and audio for video '' @ video_id @ ''.'')
                                  (called (StreamDownload audio_path) (w2\<lparr>files := fs2\<rparr>))))))"

definition merge_video_audio_moviepy ::
  "env \<Rightarrow> string \<Rightarrow> string \<Rightarrow> string \<Rightarrow> world \<Rightarrow> (py_error + unit) \<times> world" where
  \<comment> \<open>the command has no \<^verbatim>\<open>-y\<close> here\<close>
  "merge_video_audio_moviepy e video_path audio_path output_path w =
     (let cmd = [''ffmpeg'', ''-i'', video_path, ''-i'', audio_path, ''-c:v'', ''copy'',
                 ''-c:a'', ''aac'', ''-strict'', ''experimental'', output_path]
      in case run_ffmpeg e cmd (files w) of
           (None, fs) \<Rightarrow>
             (Inr (), log_line INFO (''Merged video and audio into '' @ output_path @ ''.'')
                        (called (Ffmpeg cmd) (w\<lparr>files := fs\<rparr>)))
         | (Some (CalledProcessError text), fs) \<Rightarrow>
             (Inr (), log_line ERROR (''Error merging video and audio: '' @ text)
                        (called (Ffmpeg cmd) (w\<lparr>files := fs\<rparr>)))
         | (Some err, fs) \<Rightarrow> (Inl err, called (Ffmpeg cmd) (w\<lparr>files := fs\<rparr>)))"

definition download_and_merge_moviepy ::
  "env \<Rightarrow> string \<Rightarrow> string \<Rightarrow> string \<Rightarrow> world \<Rightarrow> (py_error + string option) \<times> world" where
  "download_and_merge_moviepy e dir video_id title w =
     (case download_video_moviepy e dir video_id title w of
        (None, w1) \<Rightarrow> (Inr None, w1)
      | (Some (video_path, audio_path), w1) \<Rightarrow>
          (case merge_video_audio_moviepy e video_path audio_path (merged_path_moviepy dir title) w1 of
             (Inl err, w2) \<Rightarrow> (Inl err, w2)
           | (Inr u, w2) \<Rightarrow> (Inr (Some (merged_path_moviepy dir title)), w2)))"

section \<open>The Video Source\<close>

definition fetch_random_video ::
  "env \<Rightarrow> nat \<Rightarrow> world \<Rightarrow> (py_error + string list option) \<times> world" where
  \<comment> \<open>the same in both variants; \<open>n\<close> counts the calls. Only a
      \<^verbatim>\<open>RequestException\<close> is caught.\<close>
  "fetch_random_video e n w =
     (let w1 = called FetchVideos w
      in case search_videos e n of
           Inl (RequestException text) \<Rightarrow>
             (Inr None, log_line ERROR (''Failed to fetch videos: '' @ text) w1)
         | Inl err \<Rightarrow> (Inl err, w1)
         | Inr None \<Rightarrow>
             (Inr None,
              log_line ERROR ''No videos found or an error occurred in the API response.'' w1)
         | Inr (Some video_ids) \<Rightarrow>
             if video_ids = []
             then (Inr None, log_line WARNING ''No video IDs found in the response.'' w1)
             else (Inr (Some (map watch_url video_ids)), w1))"

section \<open>The Orchestrator\<close>

subsection \<open>\<^verbatim>\<open>main\<close> of the ffmpeg variant\<close>

definition video_id_of_url :: "string \<Rightarrow> string" where
  \<comment> \<open>\<^verbatim>\<open>url.split('=')[-1]\<close>\<close>
  "video_id_of_url url = rev (takeWhile (\<lambda>c. c \<noteq> CHR ''='') (rev url))"

definition truthy :: "py_value \<Rightarrow> bool" where
  "truthy v = (case v of PyNone \<Rightarrow> False | PyTrue \<Rightarrow> True | PyStr s \<Rightarrow> s \<noteq> [])"

text \<open>
  The \<^verbatim>\<open>for\<close> loop over the URLs. The result is the exception that leaves the loop,
  if any. \<open>dir\<close> is \<^verbatim>\<open>YT_DOWNLOADS_DIR\<close> and \<open>script_dir\<close> is \<^verbatim>\<open>SCRIPT_DIR\<close>.
\<close>

fun try_candidates ::
  "env \<Rightarrow> string \<Rightarrow> string \<Rightarrow> string list \<Rightarrow> world \<Rightarrow> py_error option \<times> world" where
  "try_candidates e dir script_dir [] w = (None, w)"
| "try_candidates e dir script_dir (url # urls) w =
     (case yt_title e url of
        Inl err \<Rightarrow> (Some err, called (Lookup url) w)
      | Inr title \<Rightarrow>
          (case download_and_merge_ffmpeg e dir (video_id_of_url url) title (called (Lookup url) w) of
             (Inl err, w1) \<Rightarrow> (Some err, w1)
           | (Inr None, w1) \<Rightarrow> try_candidates e dir script_dir urls w1
           | (Inr (Some output_path), w1) \<Rightarrow>
               if output_path = [] then try_candidates e dir script_dir urls w1
               else (case trim_and_resize_video_ffmpeg e output_path title
                            (path_join script_dir ''Assets/outro.mp4'') 55 w1 of
                       (r, w2) \<Rightarrow>
                         if truthy r then (None, w2)
                         else try_candidates e dir script_dir urls w2)))"

definition main_failed :: "py_error \<Rightarrow> world \<Rightarrow> world" where
  \<comment> \<open>\<^verbatim>\<open>except Exception\<close> around the whole of \<^verbatim>\<open>main\<close>\<close>
  "main_failed err w = log_line ERROR (''Main execution error: '' @ str_error err) w"

definition main_ffmpeg :: "env \<Rightarrow> string \<Rightarrow> string \<Rightarrow> world \<Rightarrow> world" where
  \<comment> \<open>\<^verbatim>\<open>main\<close> returns nothing, and its handler catches every exception\<close>
  "main_ffmpeg e dir script_dir w =
     (case fetch_random_video e 0 w of
        (Inl err, w1) \<Rightarrow> main_failed err w1
      | (Inr None, w1) \<Rightarrow> main_failed (OtherError ''No videos to process.'') w1
      | (Inr (Some video_urls), w1) \<Rightarrow>
          if video_urls = [] then main_failed (OtherError ''No videos to process.'') w1
          else (case try_candidates e dir script_dir video_urls w1 of
                  (Some err, w2) \<Rightarrow> main_failed err w2
                | (None, w2) \<Rightarrow> w2))"

subsection \<open>\<^verbatim>\<open>main_flow\<close> of the moviepy variant\<close>

definition fetch_channel_logo :: "env \<Rightarrow> py_error + string option" where
  \<comment> \<open>a \<^verbatim>\<open>RequestException\<close> is printed and gives \<^verbatim>\<open>None\<close>\<close>
  "fetch_channel_logo e =
     (case logo_query e of
        Inl (RequestException text) \<Rightarrow> Inr None
      | Inl err \<Rightarrow> Inl err
      | Inr logo_url \<Rightarrow> Inr logo_url)"

definition download_logo :: "env \<Rightarrow> string \<Rightarrow> string \<Rightarrow> world \<Rightarrow> py_error option \<times> world" where
  \<comment> \<open>a \<^verbatim>\<open>RequestException\<close> is printed; the function returns nothing\<close>
  "download_logo e logo_url save_path w =
     (case logo_download e logo_url save_path (files w) of
        (Some (RequestException text), fs) \<Rightarrow> (None, w\<lparr>files := fs\<rparr>)
      | (r, fs) \<Rightarrow> (r, w\<lparr>files := fs\<rparr>))"

text \<open>
  \<^verbatim>\<open>main_flow\<close> has no exception handler: an exception of a lookup leaves it. After a
  download whose file exists it calls \<^verbatim>\<open>trim_and_resize_video\<close> with two positional
  arguments and \<^verbatim>\<open>watermark_path\<close>; the parameter \<^verbatim>\<open>outro_path\<close> has no default, so
  the call raises \<^verbatim>\<open>TypeError\<close> before the function body runs. The download is called
  with the URL in the place of the title.
\<close>

definition missing_outro_path :: py_error where
  "missing_outro_path =
     TypeError (''trim_and_resize_video() missing 1 required positional argument: '' @
                [CHR 0x27] @ ''outro_path'' @ [CHR 0x27])"

definition next_trial :: "nat \<Rightarrow> world \<Rightarrow> world" where
  \<comment> \<open>\<^verbatim>\<open>trials += 1\<close> and the check that follows, for the old value of \<^verbatim>\<open>trials\<close>\<close>
  "next_trial trials w =
     (if trials + 1 \<ge> 5
      then log_line CRITICAL ''Exceeded maximum number of trials. Exiting.'' w else w)"

function main_flow_loop :: "env \<Rightarrow> string \<Rightarrow> nat \<Rightarrow> world \<Rightarrow> py_error option \<times> world" where
  "main_flow_loop e dir trials w =
     (if trials < 5 then
        (case fetch_random_video e trials w of
           (Inl err, w1) \<Rightarrow> (Some err, w1)
         | (Inr video_urls, w1) \<Rightarrow>
             (case video_urls of
                Some (video_url # rest) \<Rightarrow>
                  (case yt_video_id e video_url of
                     Inl err \<Rightarrow> (Some err, called (Lookup video_url) w1)
                   | Inr video_id \<Rightarrow>
                       (case yt_title e video_url of
                          Inl err \<Rightarrow> (Some err, called (Lookup video_url) w1)
                        | Inr video_title \<Rightarrow>
                            (case download_and_merge_moviepy e dir video_id video_url
                                    (log_line INFO
                                       (''Selected video for processing: '' @ video_url @
                                        '' (ID: '' @ video_id @ '', Title: '' @ video_title @ '')'')
                                       (called (Lookup video_url) w1)) of
                               (Inl err, w2) \<Rightarrow> (Some err, w2)
                             | (Inr download_path, w2) \<Rightarrow>
                                 if download_path \<noteq> None \<and> download_path \<noteq> Some [] \<and>
                                    exists_path w2 (the download_path)
                                 then (Some missing_outro_path, w2)
                                 else main_flow_loop e dir (trials + 1)
                                        (next_trial trials
                                           (log_line ERROR
                                              (''Failed to download video '' @ video_id @
                                               '', trying next video.'') w2)))))
              | _ \<Rightarrow>
                  main_flow_loop e dir (trials + 1)
                    (next_trial trials
                       (log_line WARNING ''No suitable videos found, retrying...'' w1))))
      else (None, w))"
  by pat_completeness auto
termination
  by (relation "measure (\<lambda>(e, dir, trials, w). 5 - trials)") auto

declare main_flow_loop.simps [simp del]

definition main_flow :: "env \<Rightarrow> string \<Rightarrow> string \<Rightarrow> world \<Rightarrow> py_error option \<times> world" where
  \<comment> \<open>the result is the exception that leaves \<^verbatim>\<open>main_flow\<close>, if any\<close>
  "main_flow e dir script_dir w =
     (let logo_path = path_join script_dir ''channel_logo.png''
      in if exists_path w logo_path then main_flow_loop e dir 0 w
         else (case fetch_channel_logo e of
                 Inl err \<Rightarrow> (Some err, w)
               | Inr None \<Rightarrow> (None, w)
               | Inr (Some logo_url) \<Rightarrow>
                   if logo_url = [] then (None, w)
                   else (case download_logo e logo_url logo_path w of
                           (Some err, w1) \<Rightarrow> (Some err, w1)
                         | (None, w1) \<Rightarrow> main_flow_loop e dir 0 w1)))"

section \<open>Properties of \<^verbatim>\<open>break_text\<close>\<close>

lemma sum_list_length_le:
  "(\<And>l. l \<in> set ls \<Longrightarrow> length l \<le> w) \<Longrightarrow> sum_list (map length ls) \<le> length ls * w"
  by (induction ls) (auto simp: add_le_mono)

lemma break_lines_cases:
  assumes "0 < max_lines" and "textwrap_wrap text line_width = Inr raw"
  shows "break_lines text max_lines line_width =
     Inr (if length raw > nat max_lines
          then take (nat max_lines - 1) raw @ [raw ! (nat max_lines - 1) @ ''...'']
          else raw)"
proof (cases "length raw > nat max_lines")
  case False
  then have "\<not> int (length raw) > max_lines" using assms(1) by linarith
  with False assms show ?thesis by (simp add: break_lines_def)
next
  case True
  define n where "n = nat max_lines"
  have n: "0 < n" "n < length raw" "max_lines = int n" using assms True by (simp_all add: n_def)
  have sl: "slice_upto raw max_lines = take n raw" using n by (simp add: slice_upto_def)
  have ne: "take n raw \<noteq> []" using n by auto
  have bl: "butlast (take n raw) = take (n - 1) raw"
    using n by (simp add: butlast_take)
  have la: "last (take n raw) = raw ! (n - 1)"
  proof -
    have "last (take n raw) = take n raw ! (length (take n raw) - 1)"
      using ne by (rule last_conv_nth)
    also have "length (take n raw) = n" using n by simp
    also have "take n raw ! (n - 1) = raw ! (n - 1)" using n by simp
    finally show ?thesis .
  qed
  have gt: "int (length raw) > max_lines" using n by simp
  have "break_lines text max_lines line_width = append_ellipsis (slice_upto raw max_lines)"
    using gt assms(2) by (simp add: break_lines_def)
  also have "\<dots> = append_ellipsis (take n raw)" by (simp only: sl)
  also have "\<dots> = Inr (butlast (take n raw) @ [last (take n raw) @ ''...''])"
    using ne by (simp add: append_ellipsis_def)
  also have "\<dots> = Inr (take (n - 1) raw @ [raw ! (n - 1) @ ''...''])"
    by (simp only: bl la)
  finally show ?thesis using True by (simp add: n_def)
qed

text \<open>
  Claim C1, as amended. For a positive line width and a positive line limit,
  \<^verbatim>\<open>break_text\<close> never fails. Every raw line of the wrap has at most
  \<open>line_width\<close> characters and no newline. When the raw wrap has more than
  \<open>max_lines\<close> lines, the result is its first \<open>max_lines\<close> lines with the marker
  \<open>...\<close> appended to the last of them: exactly \<open>max_lines\<close> lines of at most
  \<open>max_lines * line_width + 3\<close> characters in total. Otherwise the result is the raw
  wrap itself and nothing is appended. The moviepy variant joins these lines with
  newlines; the ffmpeg variant first adds \<open>top_padding\<close> empty lines above and
  \<open>bottom_padding\<close> below.
\<close>

theorem break_text_wraps_and_truncates:
  assumes "0 < line_width" and "0 < max_lines"
  shows "\<exists>raw lines.
     textwrap_wrap text line_width = Inr raw \<and>
     break_lines text max_lines line_width = Inr lines \<and>
     break_text_moviepy text max_lines line_width = Inr (join_lines lines) \<and>
     break_text_ffmpeg text max_lines line_width top_padding bottom_padding =
       Inr (join_lines (padded_text lines top_padding bottom_padding)) \<and>
     list_all (\<lambda>l. length l \<le> nat line_width \<and> list_all (\<lambda>c. code c \<noteq> 10) l) raw \<and>
     length lines \<le> nat max_lines \<and>
     (if length raw > nat max_lines
      then lines = take (nat max_lines - 1) raw @ [raw ! (nat max_lines - 1) @ ''...''] \<and>
           length lines = nat max_lines \<and>
           sum_list (map length lines) \<le> nat max_lines * nat line_width + 3
      else lines = raw)"
proof -
  define n where "n = nat max_lines"
  define w where "w = nat line_width"
  obtain raw where raw: "textwrap_wrap text line_width = Inr raw"
    using textwrap_wrap_total[OF assms(1)] by blast
  define lines where "lines = (if length raw > n
          then take (n - 1) raw @ [raw ! (n - 1) @ ''...'']
          else raw)"
  have bl: "break_lines text max_lines line_width = Inr lines"
    using break_lines_cases[OF assms(2) raw] by (simp add: lines_def n_def)
  have le: "\<And>l. l \<in> set raw \<Longrightarrow> length l \<le> w"
  proof -
    fix l assume "l \<in> set raw"
    then have "int (length l) \<le> line_width" by (rule textwrap_wrap_line_le[OF raw])
    then show "length l \<le> w" unfolding w_def by linarith
  qed
  have nl: "\<And>l c. l \<in> set raw \<Longrightarrow> c \<in> set l \<Longrightarrow> code c \<noteq> 10"
    using textwrap_wrap_no_newline[OF raw] by blast
  have all: "list_all (\<lambda>l. length l \<le> w \<and> list_all (\<lambda>c. code c \<noteq> 10) l) raw"
    using le nl by (simp add: list_all_iff)
  have n0: "0 < n" using assms(2) by (simp add: n_def)
  have len: "length lines \<le> n" using n0 by (auto simp: lines_def)
  have trunc: "length raw > n \<Longrightarrow> length lines = n \<and> sum_list (map length lines) \<le> n * w + 3"
  proof -
    assume big: "length raw > n"
    then have l: "lines = take (n - 1) raw @ [raw ! (n - 1) @ ''...'']" by (simp add: lines_def)
    have "sum_list (map length (take (n - 1) raw)) \<le> length (take (n - 1) raw) * w"
      by (rule sum_list_length_le) (auto dest: in_set_takeD le)
    moreover have "length (take (n - 1) raw) = n - 1" using big by simp
    moreover have "length (raw ! (n - 1)) \<le> w" using big n0 by (intro le) simp
    ultimately have "sum_list (map length lines) \<le> (n - 1) * w + w + 3"
      by (simp add: l)
    moreover have "(n - 1) * w + w = n * w" using n0 by (cases n) simp_all
    ultimately show ?thesis using big n0 by (simp add: l)
  qed
  show ?thesis
    apply (rule exI[of _ raw], rule exI[of _ lines])
    using raw bl all len trunc
    by (simp add: break_text_moviepy_def break_text_ffmpeg_def n_def[symmetric] w_def[symmetric] lines_def)
qed

text \<open>
  A 200-character title with the widths of the scenario: the hypotheses of
  \<open>break_text_wraps_and_truncates\<close> hold and its conclusion is instantiated.
\<close>

theorem break_text_wraps_and_truncates_witness:
  "(0::int) < 40 \<and> (0::int) < 3 \<and>
   length ''How to build a modern desktop GUI application with Python and Qt from scratch: layouts, custom widgets, style sheets, animations, threads, packaging and deployment for Windows, macOS and Linux - intro'' = 200 \<and>
   (\<exists>raw lines.
     textwrap_wrap ''How to build a modern desktop GUI application with Python and Qt from scratch: layouts, custom widgets, style sheets, animations, threads, packaging and deployment for Windows, macOS and Linux - intro'' 40 = Inr raw \<and>
     break_lines ''How to build a modern desktop GUI application with Python and Qt from scratch: layouts, custom widgets, style sheets, animations, threads, packaging and deployment for Windows, macOS and Linux - intro'' 3 40 = Inr lines \<and>
     break_text_moviepy ''How to build a modern desktop GUI application with Python and Qt from scratch: layouts, custom widgets, style sheets, animations, threads, packaging and deployment for Windows, macOS and Linux - intro'' 3 40 = Inr (join_lines lines) \<and>
     break_text_ffmpeg ''How to build a modern desktop GUI application with Python and Qt from scratch: layouts, custom widgets, style sheets, animations, threads, packaging and deployment for Windows, macOS and Linux - intro'' 3 40 3 3 = Inr (join_lines (padded_text lines 3 3)) \<and>
     list_all (\<lambda>l. length l \<le> nat 40 \<and> list_all (\<lambda>c. code c \<noteq> 10) l) raw \<and>
     length lines \<le> nat 3 \<and>
     (if length raw > nat 3
      then lines = take (nat 3 - 1) raw @ [raw ! (nat 3 - 1) @ ''...''] \<and>
           length lines = nat 3 \<and>
           sum_list (map length lines) \<le> nat 3 * nat 40 + 3
      else lines = raw))"
  using break_text_wraps_and_truncates [of 40 3 "''How to build a modern desktop GUI application with Python and Qt from scratch: layouts, custom widgets, style sheets, animations, threads, packaging and deployment for Windows, macOS and Linux - intro''" 3 3]
  by simp

text \<open>
  Claim C1 as stated fails. The title \<open>Wait...\<close> wraps to one line, nothing is
  truncated, and yet the last line ends in the marker. With the paddings of the call in
  the ffmpeg compositor the result has seven lines for a limit of three. A title of 200
  letters gives three lines of 40, 40 and 43 characters, 123 in total; a title of 200
  spaces gives no line at all.
\<close>

theorem break_text_claim_counterexample:
  "textwrap_wrap ''Wait...'' 40 = Inr [''Wait...''] \<and>
   break_lines ''Wait...'' 3 40 = Inr [''Wait...''] \<and>
   break_text_ffmpeg ''Wait...'' 3 20 3 3 =
     Inr (join_lines [[], [], [], ''Wait...'', [], [], []]) \<and>
   length (replicate 200 CHR ''a'') = 200 \<and>
   break_lines (replicate 200 CHR ''a'') 3 40 =
     Inr [replicate 40 CHR ''a'', replicate 40 CHR ''a'', replicate 40 CHR ''a'' @ ''...''] \<and>
   sum_list (map length
     [replicate 40 CHR ''a'', replicate 40 CHR ''a'', replicate 40 CHR ''a'' @ ''...'']) = 123 \<and>
   break_lines (replicate 200 CHR '' '') 3 40 = Inr []"
  by code_simp

section \<open>Properties of the Fetcher\<close>

text \<open>
  An environment for concrete runs: every lookup answers \<open>len\<close> (a duration or an
  exception), the video stream exists, the audio stream exists when \<open>audio\<close> holds, a
  download creates its file or raises \<open>download_error\<close>, and ffmpeg creates its last
  argument or raises \<open>merge_error\<close>.
\<close>

definition demo_env :: "py_error + int \<Rightarrow> bool \<Rightarrow> py_error option \<Rightarrow> py_error option \<Rightarrow> env" where
  "demo_env len audio download_error merge_error =
     \<lparr>yt_length = (\<lambda>url. len),
      yt_title = (\<lambda>url. Inr ''Demo: a title''),
      yt_video_id = (\<lambda>url. Inr (drop 32 url)),
      yt_streams = (\<lambda>url. Inr (True, audio)),
      stream_download = (\<lambda>path fs. (download_error, if download_error = None then path # fs else fs)),
      run_ffmpeg = (\<lambda>cmd fs. (merge_error, if merge_error = None then last cmd # fs else fs)),
      run_ffprobe = (\<lambda>path fs. Inr ''720\<newline>1280''),
      search_videos = (\<lambda>n. Inr (Some [''abc''])),
      make_dirs = (\<lambda>path. None),
      write_file = (\<lambda>path text fs. (None, path # fs)),
      load_clip = (\<lambda>path. Inr (1920, 1080)),
      str_size = (\<lambda>(width, height). ''('' @ show_int width @ '', '' @ show_int height @ '')''),
      library_op = (\<lambda>name. None),
      write_videofile = (\<lambda>path fs. (None, path # fs)),
      logo_query = Inr (Some ''https://example.org/logo.png''),
      logo_download = (\<lambda>url path fs. (None, path # fs))\<rparr>"

definition empty_world :: world where
  "empty_world = \<lparr>files = [], logged = [], calls = []\<rparr>"

text \<open>
  Claim C4. In the ffmpeg variant a candidate of at most 119 seconds is skipped:
  \<^verbatim>\<open>download_video\<close> returns \<^verbatim>\<open>None\<close>, touches no file, starts no download and logs
  at level INFO, not ERROR. A candidate of exactly 120 seconds passes the check: with
  both streams found, no cached video file and downloads that raise nothing, both
  streams are downloaded and the paths are returned.
\<close>

theorem download_video_duration_threshold:
  "(yt_length e (watch_url video_id) = Inr d \<and> d \<le> 119 \<longrightarrow>
      download_video_ffmpeg e dir video_id title w =
        (None,
         w\<lparr>logged := logged w @
              [(DEBUG, ''Attempting to download video from URL: '' @ watch_url video_id),
               (INFO, ''Video '' @ [CHR 0x27] @ title @ [CHR 0x27] @
                      '' is shorter than 2 minutes. Skipping download.'')],
           calls := calls w @ [Lookup (watch_url video_id)]\<rparr>)) \<and>
   (yt_length e (watch_url video_id) = Inr 120 \<and>
    yt_streams e (watch_url video_id) = Inr (True, True) \<and>
    \<not> exists_path w (video_path_ffmpeg dir title) \<and>
    stream_download e (video_path_ffmpeg dir title) (files w) = (None, fs1) \<and>
    stream_download e (audio_path_ffmpeg dir title) fs1 = (None, fs2) \<longrightarrow>
      download_video_ffmpeg e dir video_id title w =
        (Some (video_path_ffmpeg dir title, audio_path_ffmpeg dir title, False),
         w\<lparr>files := fs2,
           logged := logged w @
              [(DEBUG, ''Attempting to download video from URL: '' @ watch_url video_id),
               (INFO, ''Downloaded video and audio for video '' @ video_id @ ''.'')],
           calls := calls w @ [Lookup (watch_url video_id),
              StreamDownload (video_path_ffmpeg dir title),
              StreamDownload (audio_path_ffmpeg dir title)]\<rparr>))"
  by (simp add: download_video_ffmpeg_def download_streams_ffmpeg_def Let_def
        log_line_def called_def exists_path_def)

theorem download_video_duration_threshold_witness:
  "download_video_ffmpeg (demo_env (Inr 119) True None None) ''YtDownloads'' ''abc'' ''Demo: a title'' empty_world =
     (None,
      \<lparr>files = [],
       logged = [(DEBUG, ''Attempting to download video from URL: https://www.youtube.com/watch?v=abc''),
                 (INFO, ''Video 'Demo: a title' is shorter than 2 minutes. Skipping download.'')],
       calls = [Lookup ''https://www.youtube.com/watch?v=abc'']\<rparr>) \<and>
   download_video_ffmpeg (demo_env (Inr 120) True None None) ''YtDownloads'' ''abc'' ''Demo: a title'' empty_world =
     (Some (''YtDownloads/Demoatitle_video.mp4'', ''YtDownloads/Demoatitle_audio.mp4'', False),
      \<lparr>files = [''YtDownloads/Demoatitle_audio.mp4'', ''YtDownloads/Demoatitle_video.mp4''],
       logged = [(DEBUG, ''Attempting to download video from URL: https://www.youtube.com/watch?v=abc''),
                 (INFO, ''Downloaded video and audio for video abc.'')],
       calls = [Lookup ''https://www.youtube.com/watch?v=abc'',
                StreamDownload ''YtDownloads/Demoatitle_video.mp4'',
                StreamDownload ''YtDownloads/Demoatitle_audio.mp4'']\<rparr>)"
  using download_video_duration_threshold
          [of "demo_env (Inr 119) True None None" "''abc''" 119 "''YtDownloads''" "''Demo: a title''" empty_world]
        download_video_duration_threshold
          [of "demo_env (Inr 120) True None None" "''abc''" 120 "''YtDownloads''" "''Demo: a title''" empty_world
              "[''YtDownloads/Demoatitle_video.mp4'']"
              "[''YtDownloads/Demoatitle_audio.mp4'', ''YtDownloads/Demoatitle_video.mp4'']"]
  by (simp add: demo_env_def empty_world_def watch_url_def video_path_ffmpeg_def
        audio_path_ffmpeg_def path_join_def sanitize_filename_ffmpeg_def is_word_char_def
        is_alnum_def code_def exists_path_def)

text \<open>
  Claim C9, as amended. When the expected video file exists, \<^verbatim>\<open>download_video\<close>
  downloads no stream and changes no file, whatever the outside answers; the only
  external call is the metadata lookup. When moreover the lookup reports a duration of
  at least 120 seconds and both stream queries find a stream, it returns the expected
  video and audio paths flagged as local, and \<^verbatim>\<open>download_and_merge\<close> returns the
  expected merged path without running a merge. Only the existence of the video path is
  tested: neither the audio file, nor the merged file, nor any content.
\<close>

theorem download_video_cache_hit:
  "(exists_path w (video_path_ffmpeg dir title) \<longrightarrow>
      calls (snd (download_video_ffmpeg e dir video_id title w)) =
        calls w @ [Lookup (watch_url video_id)] \<and>
      files (snd (download_video_ffmpeg e dir video_id title w)) = files w) \<and>
   (yt_length e (watch_url video_id) = Inr d \<and> 120 \<le> d \<and>
    yt_streams e (watch_url video_id) = Inr (True, True) \<and>
    exists_path w (video_path_ffmpeg dir title) \<longrightarrow>
     download_video_ffmpeg e dir video_id title w =
       (Some (video_path_ffmpeg dir title, audio_path_ffmpeg dir title, True),
        w\<lparr>logged := logged w @
             [(DEBUG, ''Attempting to download video from URL: '' @ watch_url video_id)],
          calls := calls w @ [Lookup (watch_url video_id)]\<rparr>) \<and>
     download_and_merge_ffmpeg e dir video_id title w =
       (Inr (Some (merged_path_ffmpeg dir title)),
        w\<lparr>logged := logged w @
             [(DEBUG, ''Attempting to download video from URL: '' @ watch_url video_id)],
          calls := calls w @ [Lookup (watch_url video_id)]\<rparr>))"
proof -
  have hit: "yt_length e (watch_url video_id) = Inr d \<and> 120 \<le> d \<and>
    yt_streams e (watch_url video_id) = Inr (True, True) \<and>
    exists_path w (video_path_ffmpeg dir title) \<longrightarrow>
     download_video_ffmpeg e dir video_id title w =
       (Some (video_path_ffmpeg dir title, audio_path_ffmpeg dir title, True),
        w\<lparr>logged := logged w @
             [(DEBUG, ''Attempting to download video from URL: '' @ watch_url video_id)],
          calls := calls w @ [Lookup (watch_url video_id)]\<rparr>)"
    by (simp add: download_video_ffmpeg_def download_streams_ffmpeg_def Let_def
          log_line_def called_def exists_path_def)
  have merge: "download_video_ffmpeg e dir video_id title w = (Some (v, a, True), w') \<Longrightarrow>
      download_and_merge_ffmpeg e dir video_id title w = (Inr (Some (merged_path_ffmpeg dir title)), w')"
    for v a w'
    by (simp add: download_and_merge_ffmpeg_def)
  have quiet: "exists_path w (video_path_ffmpeg dir title) \<longrightarrow>
      calls (snd (download_video_ffmpeg e dir video_id title w)) =
        calls w @ [Lookup (watch_url video_id)] \<and>
      files (snd (download_video_ffmpeg e dir video_id title w)) = files w"
    by (simp add: download_video_ffmpeg_def download_streams_ffmpeg_def download_failed_def
          Let_def log_line_def called_def exists_path_def split: sum.split prod.split)
  from hit merge quiet show ?thesis by blast
qed

text \<open>A world in which both expected files of the title are on disk.\<close>

definition cached_world :: world where
  "cached_world =
     \<lparr>files = [''YtDownloads/Demoatitle_video.mp4'', ''YtDownloads/Demoatitle_audio.mp4''],
      logged = [], calls = []\<rparr>"

theorem download_video_cache_hit_witness:
  "download_video_ffmpeg (demo_env (Inr 300) True None None) ''YtDownloads'' ''abc'' ''Demo: a title'' cached_world =
     (Some (''YtDownloads/Demoatitle_video.mp4'', ''YtDownloads/Demoatitle_audio.mp4'', True),
      \<lparr>files = [''YtDownloads/Demoatitle_video.mp4'', ''YtDownloads/Demoatitle_audio.mp4''],
       logged = [(DEBUG, ''Attempting to download video from URL: https://www.youtube.com/watch?v=abc'')],
       calls = [Lookup ''https://www.youtube.com/watch?v=abc'']\<rparr>) \<and>
   download_and_merge_ffmpeg (demo_env (Inr 300) True None None) ''YtDownloads'' ''abc'' ''Demo: a title'' cached_world =
     (Inr (Some ''YtDownloads/Demoatitle.mp4''),
      \<lparr>files = [''YtDownloads/Demoatitle_video.mp4'', ''YtDownloads/Demoatitle_audio.mp4''],
       logged = [(DEBUG, ''Attempting to download video from URL: https://www.youtube.com/watch?v=abc'')],
       calls = [Lookup ''https://www.youtube.com/watch?v=abc'']\<rparr>)"
  using download_video_cache_hit
          [where e = "demo_env (Inr 300) True None None" and video_id = "''abc''" and d = 300
             and w = cached_world and dir = "''YtDownloads''" and title = "''Demo: a title''"]
  by (simp add: demo_env_def cached_world_def watch_url_def video_path_ffmpeg_def
        audio_path_ffmpeg_def merged_path_ffmpeg_def path_join_def sanitize_filename_ffmpeg_def
        is_word_char_def is_alnum_def code_def exists_path_def)

text \<open>
  Claim C9 as stated fails: with both expected files on disk, a candidate of 60
  seconds, or one without an audio-only stream, gets \<^verbatim>\<open>None\<close>, not the paths. The
  duration check and the stream queries come before the existence check.
\<close>

theorem cache_hit_claim_counterexample:
  "exists_path cached_world (video_path_ffmpeg ''YtDownloads'' ''Demo: a title'') \<and>
   exists_path cached_world (audio_path_ffmpeg ''YtDownloads'' ''Demo: a title'') \<and>
   fst (download_video_ffmpeg (demo_env (Inr 60) True None None) ''YtDownloads'' ''abc'' ''Demo: a title''
          cached_world) = None \<and>
   fst (download_video_ffmpeg (demo_env (Inr 300) False None None) ''YtDownloads'' ''abc'' ''Demo: a title''
          cached_world) = None"
  by (simp add: download_video_ffmpeg_def download_streams_ffmpeg_def Let_def
        demo_env_def cached_world_def watch_url_def video_path_ffmpeg_def
        audio_path_ffmpeg_def path_join_def sanitize_filename_ffmpeg_def
        is_word_char_def is_alnum_def code_def exists_path_def log_line_def called_def)








section \<open>Properties of the filenames\<close>






section \<open>Properties of the Compositor, ffmpeg variant\<close>







lemma processing_failed_world:
  "processing_failed title err w = (r, w') \<Longrightarrow> r = PyNone \<and> calls w' = calls w \<and> files w' = files w"
  by (auto simp: processing_failed_def log_line_def)


lemma world_simps [simp]:
  "files (log_line l m w) = files w" "calls (log_line l m w) = calls w"
  "files (called c w) = files w" "calls (called c w) = calls w @ [c]"
  "exists_path (log_line l m w) p = exists_path w p"
  "exists_path (called c w) p = exists_path w p"
  by (simp_all add: log_line_def called_def exists_path_def)











section \<open>What the Compositor returns\<close>













section \<open>Small sources in the moviepy variant\<close>





end
